theory Spec2Isabelle
  imports Main "HOL-Library.Sublist"
begin

section \<open>The exported configuration function of webpack.config.js\<close>

text \<open>
  The repository's build is driven by one source file, \<^verbatim>\<open>webpack.config.js\<close>, which
  exports a function \<^verbatim>\<open>(env, argv) => config\<close>. The function reads
  \<^verbatim>\<open>argv.env.NODE_ENV\<close> and \<^verbatim>\<open>argv.mode\<close>, writes one line to the
  console and returns an object literal. The bundling engine that consumes the object is
  a dependency and not part of the repository.
\<close>

subsection \<open>JavaScript values and property access\<close>

text \<open>
  The arguments are plain data handed over by the command line parser: undefined, null,
  booleans, numbers, strings, arrays and objects (an association list of own properties,
  in declaration order). Numbers are represented by the integers; the function only
  compares its inputs with strings and passes them on.
\<close>

datatype jsval =
    JUndefined
  | JNull
  | JBool bool
  | JNum int
  | JStr string
  | JArr "jsval list"
  | JObj "(string \<times> jsval) list"

datatype error = TypeError

text \<open>
  \<^verbatim>\<open>v.k\<close>: reading a property of undefined or null throws a TypeError; an object
  yields its own property or undefined; every other value yields undefined for the
  property names read here (\<^verbatim>\<open>env\<close>, \<^verbatim>\<open>NODE_ENV\<close>, \<^verbatim>\<open>mode\<close>), none of
  which is a built-in prototype property.
\<close>

fun get_prop :: "jsval \<Rightarrow> string \<Rightarrow> error + jsval" where
  "get_prop JUndefined k = Inl TypeError"
| "get_prop JNull k = Inl TypeError"
| "get_prop (JObj ps) k = Inr (case map_of ps k of Some v \<Rightarrow> v | None \<Rightarrow> JUndefined)"
| "get_prop (JBool b) k = Inr JUndefined"
| "get_prop (JNum n) k = Inr JUndefined"
| "get_prop (JStr s) k = Inr JUndefined"
| "get_prop (JArr vs) k = Inr JUndefined"

subsection \<open>Regular expressions of the configuration\<close>

text \<open>
  The four regular expressions of the file (\<^verbatim>\<open>/\.css$/\<close>, \<^verbatim>\<open>/\.js$/\<close>,
  \<^verbatim>\<open>/node_modules/\<close>, \<^verbatim>\<open>/[\\/]node_modules[\\/]/\<close>) are sequences of single
  characters and character classes, optionally anchored at the end of the input.
  \<^verbatim>\<open>test\<close> searches for a match starting at any position.
\<close>

datatype ratom = RChar char | RClass "char list"

datatype regex = Regex "ratom list" bool

fun atom_ok :: "ratom \<Rightarrow> char \<Rightarrow> bool" where
  "atom_ok (RChar a) c = (a = c)"
| "atom_ok (RClass as) c = (c \<in> set as)"

fun match_here :: "ratom list \<Rightarrow> bool \<Rightarrow> string \<Rightarrow> bool" where
  "match_here [] at_end s = (if at_end then s = [] else True)"
| "match_here (a # as) at_end [] = False"
| "match_here (a # as) at_end (c # cs) = (atom_ok a c \<and> match_here as at_end cs)"

fun search :: "ratom list \<Rightarrow> bool \<Rightarrow> string \<Rightarrow> bool" where
  "search as at_end [] = match_here as at_end []"
| "search as at_end (c # cs) = (match_here as at_end (c # cs) \<or> search as at_end cs)"

fun regex_test :: "regex \<Rightarrow> string \<Rightarrow> bool" where
  "regex_test (Regex as at_end) s = search as at_end s"

definition re_css :: regex where
  "re_css = Regex (map RChar ''.css'') True"

definition re_js :: regex where
  "re_js = Regex (map RChar ''.js'') True"

definition re_node_modules :: regex where
  "re_node_modules = Regex (map RChar ''node_modules'') False"

definition re_vendor :: regex where
  "re_vendor =
     Regex ([RClass [CHR 0x5C, CHR ''/'']] @ map RChar ''node_modules'' @ [RClass [CHR 0x5C, CHR ''/'']])
       False"

subsection \<open>The configuration object\<close>

text \<open>
  Calls into the host that the object literal records without the file defining them are
  kept as they are written: \<^verbatim>\<open>path.resolve(__dirname, "dist")\<close>,
  \<^verbatim>\<open>MiniCssExtractPlugin.loader\<close> and \<^verbatim>\<open>JSON.stringify(v)\<close>.
\<close>

datatype pathval = Path_resolve_dirname string

datatype loader = MiniCssExtractPlugin_loader | Loader string

datatype defval = JSON_stringify jsval

record output_options =
  out_filename :: string
  out_path :: pathval

record devServer =
  contentBase :: string
  hot :: bool

record use_entry =
  use_loader :: loader
  use_options :: jsval

record rule =
  rule_test :: regex
  rule_exclude :: "regex option"
  rule_use :: "use_entry list"

record cache_group =
  cg_test :: regex
  cg_name :: string
  cg_chunks :: string
  cg_enforce :: "bool option"

record split_chunks =
  sc_chunks :: string
  cacheGroups :: "(string \<times> cache_group) list"

record optimization =
  moduleIds :: string
  runtimeChunk :: string
  splitChunks :: split_chunks

record css_options =
  css_filename :: string
  css_chunkFilename :: string
  ignoreOrder :: bool

datatype copy_pattern = Copy_path string | Copy_from_to string string

datatype plugin =
    CleanWebpackPlugin
  | HtmlWebpackPlugin jsval
  | CopyPlugin "copy_pattern list"
  | MiniCssExtractPlugin css_options
  | DefinePlugin "(string \<times> defval) list"

record config =
  entry :: "(string \<times> string) list"
  cfg_output :: output_options
  devtool :: string
  devServer :: devServer
  module_rules :: "rule list"
  optimization :: optimization
  plugins :: "plugin list"

text \<open>The babel-loader options of the second module rule, a constant of the file.\<close>

definition babel_options :: jsval where
  "babel_options =
     JObj [
       (''presets'', JArr [JArr [JStr ''@babel/preset-env'',
          JObj [(''useBuiltIns'', JStr ''entry''),
                (''targets'', JStr ''> 0.25%, not dead''),
                (''corejs'', JObj [(''version'', JNum 3), (''proposals'', JBool True)])]]]),
       (''plugins'', JArr [JStr ''@babel/plugin-proposal-object-rest-spread''])]"

text \<open>
  The object literal bound to \<^verbatim>\<open>config\<close>. Its free variables are \<^verbatim>\<open>devMode\<close> and
  the value of \<^verbatim>\<open>argv.env.NODE_ENV\<close>. A loader given as a bare string has no options.
\<close>

definition config_object :: "bool \<Rightarrow> jsval \<Rightarrow> config" where
  "config_object devMode node_env =
     \<lparr> entry = [(''index'', ''./src/index.js'')],
       cfg_output = \<lparr> out_filename = (if devMode then ''[name].js'' else ''[name].[contenthash].js''),
                      out_path = Path_resolve_dirname ''dist'' \<rparr>,
       devtool = (if devMode then ''source-map'' else ''cheap-source-map''),
       devServer = \<lparr> contentBase = ''./dist'', hot = True \<rparr>,
       module_rules =
         [ \<lparr> rule_test = re_css, rule_exclude = None,
             rule_use =
               [ \<lparr> use_loader = MiniCssExtractPlugin_loader,
                   use_options = JObj [(''hmr'', JBool devMode), (''reloadAll'', JBool True)] \<rparr>,
                 \<lparr> use_loader = Loader ''css-loader'', use_options = JUndefined \<rparr> ] \<rparr>,
           \<lparr> rule_test = re_js, rule_exclude = Some re_node_modules,
             rule_use = [ \<lparr> use_loader = Loader ''babel-loader'', use_options = babel_options \<rparr> ] \<rparr> ],
       optimization =
         \<lparr> moduleIds = ''hashed'',
           runtimeChunk = ''single'',
           splitChunks =
             \<lparr> sc_chunks = ''all'',
               cacheGroups =
                 [ (''vendor'', \<lparr> cg_test = re_vendor, cg_name = ''vendors'', cg_chunks = ''all'',
                                  cg_enforce = None \<rparr>),
                   (''styles'', \<lparr> cg_test = re_css, cg_name = ''styles'', cg_chunks = ''all'',
                                  cg_enforce = Some True \<rparr>) ] \<rparr> \<rparr>,
       plugins =
         [ CleanWebpackPlugin,
           HtmlWebpackPlugin (JObj [(''template'', JStr ''./public/index.html'')]),
           CopyPlugin [ Copy_path ''./data/states.geojson'',
                        Copy_from_to ''public/assets/mapIcons'' ''assets/mapIcons'' ],
           MiniCssExtractPlugin
             \<lparr> css_filename = (if devMode then ''[name].css'' else ''[name].[contenthash].css''),
               css_chunkFilename = (if devMode then ''[id].css'' else ''[id].[contenthash].css''),
               ignoreOrder = False \<rparr>,
           DefinePlugin [(''process.env.NODE_ENV'', JSON_stringify node_env)] ] \<rparr>"

text \<open>The line the function writes to the console, chosen by \<^verbatim>\<open>argv.mode\<close>.\<close>

definition mode_message :: "jsval \<Rightarrow> string" where
  "mode_message mode =
     (if mode = JStr ''development'' then ''webpack is in dev mode''
      else if mode = JStr ''production'' then ''webpack is in production mode''
      else ''webpack has no mode defined'')"

text \<open>
  \<^verbatim>\<open>devMode = argv.env.NODE_ENV !== "production"\<close>: strict inequality with a string
  literal holds for every value that is not that very string.
\<close>

definition devMode_of :: "jsval \<Rightarrow> bool" where
  "devMode_of node_env = (node_env \<noteq> JStr ''production'')"

text \<open>
  The exported function. It returns the console output together with the configuration,
  or the error thrown. The reads happen in the order of the source:
  \<^verbatim>\<open>argv.env.NODE_ENV\<close> (first \<^verbatim>\<open>argv.env\<close>, then \<^verbatim>\<open>.NODE_ENV\<close>), then
  \<^verbatim>\<open>argv.mode\<close>. The second read of \<^verbatim>\<open>argv.env.NODE_ENV\<close>, inside the object
  literal, yields the same value as the first; the first parameter is never used.
\<close>

definition argv_env_NODE_ENV :: "jsval \<Rightarrow> error + jsval" where
  "argv_env_NODE_ENV argv =
     (case get_prop argv ''env'' of
        Inl e \<Rightarrow> Inl e
      | Inr argv_env \<Rightarrow> get_prop argv_env ''NODE_ENV'')"

definition module_exports :: "jsval \<Rightarrow> jsval \<Rightarrow> error + (string list \<times> config)" where
  "module_exports env argv =
     (case argv_env_NODE_ENV argv of
        Inl e \<Rightarrow> Inl e
      | Inr node_env \<Rightarrow>
          (case get_prop argv ''mode'' of
             Inl e \<Rightarrow> Inl e
           | Inr mode \<Rightarrow>
               Inr ([mode_message mode], config_object (devMode_of node_env) node_env)))"

subsection \<open>Emitted file names\<close>

text \<open>
  A chunk as far as naming needs it: its logical name (the entry key or the name given
  by a cache group), its id, the content of its script file and, when the chunk holds
  stylesheets, the content of its style file. The id is the engine's choice and is not
  decided by the configuration function.
\<close>

record chunk =
  ch_name :: string
  ch_id :: string
  ch_script :: string
  ch_style :: "string option"

text \<open>
  Modelled from the spec: the expansion of a file name template by the Emitter (section
  4.5, "filename = logical name + content-derived hash"), which is not in the
  repository. The templates are those of the configuration; their placeholders
  \<^verbatim>\<open>[name]\<close> (the key of the chunk, as the comment at \<^verbatim>\<open>output.filename\<close> says),
  \<^verbatim>\<open>[id]\<close> (the chunk id) and \<^verbatim>\<open>[contenthash]\<close> (a hash of the content of the
  file being named) are replaced by the values given, and every other character is kept.
\<close>

function subst :: "string \<Rightarrow> string \<Rightarrow> string \<Rightarrow> string \<Rightarrow> string" where
  "subst n i h [] = []"
| "subst n i h (c # cs) =
     (if prefix ''[name]'' (c # cs) then n @ subst n i h (drop 5 cs)
      else if prefix ''[id]'' (c # cs) then i @ subst n i h (drop 3 cs)
      else if prefix ''[contenthash]'' (c # cs) then h @ subst n i h (drop 12 cs)
      else c # subst n i h cs)"
  by pat_completeness auto
termination
  by (relation "measure (\<lambda>(n, i, h, t). length t)") auto

text \<open>The options of the \<^verbatim>\<open>MiniCssExtractPlugin\<close> instance in the plugin list.\<close>

fun css_plugin :: "plugin list \<Rightarrow> css_options option" where
  "css_plugin [] = None"
| "css_plugin (MiniCssExtractPlugin opts # ps) = Some opts"
| "css_plugin (p # ps) = css_plugin ps"

text \<open>
  Modelled from the spec: the naming of the script file of a chunk by the Emitter
  (section 4.5), which is not in the repository. The file is named by the template
  \<^verbatim>\<open>output.filename\<close> of the configuration, and its hash is the hash of the script
  content alone. The hash function belongs to the engine and is a parameter.
\<close>

definition script_file :: "(string \<Rightarrow> string) \<Rightarrow> config \<Rightarrow> chunk \<Rightarrow> string" where
  "script_file hash cfg c =
     subst (ch_name c) (ch_id c) (hash (ch_script c)) (out_filename (cfg_output cfg))"

text \<open>
  Modelled from the spec: the naming of the style file of a chunk by the Emitter (section
  4.5), which is not in the repository. A chunk has a style file only when it holds
  stylesheets, and the hash of that file is the hash of the style content alone. Under
  this configuration the file is named by the \<^verbatim>\<open>chunkFilename\<close> option of
  \<^verbatim>\<open>MiniCssExtractPlugin\<close>: the \<^verbatim>\<open>filename\<close> option names the style file of a chunk
  that holds the runtime, and \<^verbatim>\<open>runtimeChunk: "single"\<close> keeps the runtime in a chunk
  of its own, without stylesheets.
\<close>

definition style_chunk_file :: "(string \<Rightarrow> string) \<Rightarrow> config \<Rightarrow> chunk \<Rightarrow> string option" where
  "style_chunk_file hash cfg c =
     (case css_plugin (plugins cfg) of
        None \<Rightarrow> None
      | Some opts \<Rightarrow>
          map_option (\<lambda>css. subst (ch_name c) (ch_id c) (hash css) (css_chunkFilename opts))
            (ch_style c))"

subsection \<open>Split rules\<close>

text \<open>
  Modelled from the spec: the rule-driven grouping of the Chunk Planner (section 4.4,
  step 2), which is not in the repository. "For each remaining module, evaluate
  SplitRules in declared order; the first matching rule assigns the module to its named
  target chunk." The rules are the \<^verbatim>\<open>cacheGroups\<close> of the configuration, in the order
  of the object literal; a rule matches a module when its \<^verbatim>\<open>test\<close> matches the
  module's path. \<open>None\<close> stands for the default grouping of unmatched modules.
\<close>

fun assign :: "(string \<times> cache_group) list \<Rightarrow> string \<Rightarrow> string option" where
  "assign [] p = None"
| "assign ((k, g) # gs) p =
     (if regex_test (cg_test g) p then Some (cg_name g) else assign gs p)"

section \<open>Properties\<close>

subsection \<open>Auxiliary facts\<close>

lemma get_prop_defined: "get_prop v k = Inr x \<Longrightarrow> \<exists>y. get_prop v k' = Inr y"
  by (cases v) auto

lemma mode_read_defined:
  "argv_env_NODE_ENV argv = Inr ne \<Longrightarrow> \<exists>m. get_prop argv ''mode'' = Inr m"
  by (auto simp: argv_env_NODE_ENV_def split: sum.splits dest: get_prop_defined)

lemma exports_Inr:
  "module_exports env argv = Inr (log, cfg) \<Longrightarrow> argv_env_NODE_ENV argv = Inr ne \<Longrightarrow>
   cfg = config_object (devMode_of ne) ne"
  by (auto simp: module_exports_def split: sum.splits)

lemma exports_config_object:
  "module_exports env argv = Inr (log, cfg) \<Longrightarrow> \<exists>d ne. cfg = config_object d ne"
  by (auto simp: module_exports_def split: sum.splits)

lemma files_dev:
  "script_file hash (config_object True ne) c = ch_name c @ ''.js''"
  "style_chunk_file hash (config_object True ne) c
     = map_option (\<lambda>css. ch_id c @ ''.css'') (ch_style c)"
  by (simp_all add: script_file_def style_chunk_file_def config_object_def)

lemma files_prod:
  "script_file hash (config_object False ne) c = ch_name c @ ''.'' @ hash (ch_script c) @ ''.js''"
  "style_chunk_file hash (config_object False ne) c
     = map_option (\<lambda>css. ch_id c @ ''.'' @ hash css @ ''.css'') (ch_style c)"
  by (simp_all add: script_file_def style_chunk_file_def config_object_def)

subsection \<open>Unrecognized mode values\<close>

text \<open>
  Claim C1, as amended. A mode value other than development and production is not
  rejected: when \<^verbatim>\<open>argv.env.NODE_ENV\<close> can be read, the function writes
  "webpack has no mode defined" and returns the configuration, whose development or
  production settings are chosen by \<^verbatim>\<open>argv.env.NODE_ENV\<close> alone; every value other
  than the string "production" selects the development settings.
\<close>

theorem unrecognized_mode_logs_and_returns:
  assumes "get_prop argv ''mode'' = Inr mode"
    and "mode \<noteq> JStr ''development''" and "mode \<noteq> JStr ''production''"
    and "argv_env_NODE_ENV argv = Inr ne"
  shows "module_exports env argv =
           Inr ([''webpack has no mode defined''], config_object (ne \<noteq> JStr ''production'') ne)"
  using assms by (simp add: module_exports_def mode_message_def devMode_of_def)

theorem unrecognized_mode_logs_and_returns_witness:
  "get_prop (JObj [(''env'', JObj [(''NODE_ENV'', JStr ''production'')])]) ''mode'' = Inr JUndefined
   \<and> JUndefined \<noteq> JStr ''development'' \<and> JUndefined \<noteq> JStr ''production''
   \<and> argv_env_NODE_ENV (JObj [(''env'', JObj [(''NODE_ENV'', JStr ''production'')])])
     = Inr (JStr ''production'')
   \<and> module_exports JNull (JObj [(''env'', JObj [(''NODE_ENV'', JStr ''production'')])])
     = Inr ([''webpack has no mode defined''], config_object False (JStr ''production''))"
proof -
  let ?argv = "JObj [(''env'', JObj [(''NODE_ENV'', JStr ''production'')])]"
  have m: "get_prop ?argv ''mode'' = Inr JUndefined" by simp
  have d: "JUndefined \<noteq> JStr ''development''" and p: "JUndefined \<noteq> JStr ''production''"
    by simp_all
  have n: "argv_env_NODE_ENV ?argv = Inr (JStr ''production'')"
    by (simp add: argv_env_NODE_ENV_def)
  from unrecognized_mode_logs_and_returns [OF m d p n, of JNull] m d p n
  show ?thesis by simp
qed

text \<open>
  Claim C1 as stated fails: with the mode "staging" and no \<^verbatim>\<open>NODE_ENV\<close> the function
  raises no error and returns the configuration with the development settings.
\<close>

theorem unrecognized_mode_is_accepted:
  "module_exports JUndefined (JObj [(''mode'', JStr ''staging''), (''env'', JObj [])])
     = Inr ([''webpack has no mode defined''], config_object True JUndefined)
   \<and> out_filename (cfg_output (config_object True JUndefined)) = ''[name].js''
   \<and> devtool (config_object True JUndefined) = ''source-map''"
  by (simp add: module_exports_def argv_env_NODE_ENV_def mode_message_def devMode_of_def
      config_object_def)

subsection \<open>File names by mode\<close>

text \<open>
  Claim C3, as amended. For every chunk, the script file is named by the logical chunk
  name and the extension when \<^verbatim>\<open>argv.env.NODE_ENV\<close> is not "production", and by the
  name, the hash of the script content and the extension otherwise. A chunk has a style
  file only when it holds stylesheets; that file carries the chunk id in place of the
  logical name: the id and the extension when \<^verbatim>\<open>argv.env.NODE_ENV\<close> is not
  "production", and the id, the hash of the style content and the extension otherwise.
\<close>

theorem emitted_filenames_by_mode:
  assumes "module_exports env argv = Inr (log, cfg)" and "argv_env_NODE_ENV argv = Inr ne"
  shows "if ne \<noteq> JStr ''production''
         then script_file hash cfg c = ch_name c @ ''.js''
            \<and> style_chunk_file hash cfg c = map_option (\<lambda>css. ch_id c @ ''.css'') (ch_style c)
         else script_file hash cfg c = ch_name c @ ''.'' @ hash (ch_script c) @ ''.js''
            \<and> style_chunk_file hash cfg c
                = map_option (\<lambda>css. ch_id c @ ''.'' @ hash css @ ''.css'') (ch_style c)"
  using exports_Inr [OF assms] by (simp add: devMode_of_def files_dev files_prod)

theorem emitted_filenames_by_mode_witness:
  "module_exports JUndefined
      (JObj [(''mode'', JStr ''production''), (''env'', JObj [(''NODE_ENV'', JStr ''production'')])])
     = Inr ([''webpack is in production mode''], config_object False (JStr ''production''))
   \<and> argv_env_NODE_ENV
        (JObj [(''mode'', JStr ''production''), (''env'', JObj [(''NODE_ENV'', JStr ''production'')])])
     = Inr (JStr ''production'')
   \<and> script_file (\<lambda>s. ''9f2c'') (config_object False (JStr ''production''))
        \<lparr> ch_name = ''index'', ch_id = ''0'', ch_script = ''main()'', ch_style = None \<rparr>
     = ''index.9f2c.js''
   \<and> style_chunk_file (\<lambda>s. ''9f2c'') (config_object False (JStr ''production''))
        \<lparr> ch_name = ''index'', ch_id = ''0'', ch_script = ''main()'', ch_style = None \<rparr>
     = None
   \<and> script_file (\<lambda>s. ''9f2c'') (config_object False (JStr ''production''))
        \<lparr> ch_name = ''styles'', ch_id = ''1'', ch_script = ''// extracted'',
          ch_style = Some ''body{margin:0}'' \<rparr>
     = ''styles.9f2c.js''
   \<and> style_chunk_file (\<lambda>s. ''9f2c'') (config_object False (JStr ''production''))
        \<lparr> ch_name = ''styles'', ch_id = ''1'', ch_script = ''// extracted'',
          ch_style = Some ''body{margin:0}'' \<rparr>
     = Some ''1.9f2c.css''
   \<and> module_exports JUndefined
        (JObj [(''mode'', JStr ''development''), (''env'', JObj [(''NODE_ENV'', JStr ''development'')])])
     = Inr ([''webpack is in dev mode''], config_object True (JStr ''development''))
   \<and> argv_env_NODE_ENV
        (JObj [(''mode'', JStr ''development''), (''env'', JObj [(''NODE_ENV'', JStr ''development'')])])
     = Inr (JStr ''development'')
   \<and> script_file (\<lambda>s. ''9f2c'') (config_object True (JStr ''development''))
        \<lparr> ch_name = ''styles'', ch_id = ''styles'', ch_script = ''// extracted'',
          ch_style = Some ''body{margin:0}'' \<rparr>
     = ''styles.js''
   \<and> style_chunk_file (\<lambda>s. ''9f2c'') (config_object True (JStr ''development''))
        \<lparr> ch_name = ''styles'', ch_id = ''styles'', ch_script = ''// extracted'',
          ch_style = Some ''body{margin:0}'' \<rparr>
     = Some ''styles.css''"
proof -
  let ?argv = "JObj [(''mode'', JStr ''production''), (''env'', JObj [(''NODE_ENV'', JStr ''production'')])]"
  let ?argv' = "JObj [(''mode'', JStr ''development''), (''env'', JObj [(''NODE_ENV'', JStr ''development'')])]"
  let ?index = "\<lparr> ch_name = ''index'', ch_id = ''0'', ch_script = ''main()'', ch_style = None \<rparr>"
  let ?styles = "\<lparr> ch_name = ''styles'', ch_id = ''1'', ch_script = ''// extracted'',
                    ch_style = Some ''body{margin:0}'' \<rparr>"
  let ?styles' = "\<lparr> ch_name = ''styles'', ch_id = ''styles'', ch_script = ''// extracted'',
                     ch_style = Some ''body{margin:0}'' \<rparr>"
  have n: "argv_env_NODE_ENV ?argv = Inr (JStr ''production'')"
    by (simp add: argv_env_NODE_ENV_def)
  have r: "module_exports JUndefined ?argv
             = Inr ([''webpack is in production mode''], config_object False (JStr ''production''))"
    by (simp add: module_exports_def n mode_message_def devMode_of_def)
  have n': "argv_env_NODE_ENV ?argv' = Inr (JStr ''development'')"
    by (simp add: argv_env_NODE_ENV_def)
  have r': "module_exports JUndefined ?argv'
              = Inr ([''webpack is in dev mode''], config_object True (JStr ''development''))"
    by (simp add: module_exports_def n' mode_message_def devMode_of_def)
  from emitted_filenames_by_mode [OF r n, of "\<lambda>s. ''9f2c''" ?index]
    emitted_filenames_by_mode [OF r n, of "\<lambda>s. ''9f2c''" ?styles]
    emitted_filenames_by_mode [OF r' n', of "\<lambda>s. ''9f2c''" ?styles'] r n r' n'
  show ?thesis by simp
qed

text \<open>
  Claim C3 as stated fails for the style file. With \<^verbatim>\<open>NODE_ENV\<close> set to
  "development" and no \<^verbatim>\<open>argv.mode\<close>, the function returns the development
  templates, and the style file of the chunk named "styles", to which the engine has then
  given the id "1", is emitted as "1.css": the logical name is not part of it.
\<close>

theorem style_chunk_file_named_by_id:
  "module_exports JUndefined (JObj [(''env'', JObj [(''NODE_ENV'', JStr ''development'')])])
     = Inr ([''webpack has no mode defined''], config_object True (JStr ''development''))
   \<and> style_chunk_file (\<lambda>s. ''9f2c'') (config_object True (JStr ''development''))
        \<lparr> ch_name = ''styles'', ch_id = ''1'', ch_script = ''// extracted'',
          ch_style = Some ''body{margin:0}'' \<rparr>
     = Some ''1.css''"
  by (simp add: module_exports_def argv_env_NODE_ENV_def mode_message_def devMode_of_def
      files_dev)

subsection \<open>Order of the split rules\<close>

text \<open>
  Claim C4. Among the rules that match a module, the one declared first decides the
  chunk; with the cache groups of every returned configuration (vendor to "vendors",
  then styles to "styles"), a module whose path matches both tests, a style sheet under
  \<^verbatim>\<open>node_modules\<close>, is assigned to "vendors" and not to "styles".
\<close>

theorem first_matching_rule_wins:
  "(\<forall>(pre :: (string \<times> cache_group) list) k (g :: cache_group) post p.
       (\<forall>x \<in> set pre. \<not> regex_test (cg_test (snd x)) p) \<and> regex_test (cg_test g) p
       \<longrightarrow> assign (pre @ (k, g) # post) p = Some (cg_name g))
   \<and> (\<forall>env argv log cfg p.
         module_exports env argv = Inr (log, cfg)
         \<and> regex_test re_vendor p \<and> regex_test re_css p
       \<longrightarrow> assign (cacheGroups (splitChunks (optimization cfg))) p = Some ''vendors'')"
proof (intro conjI allI impI)
  fix pre :: "(string \<times> cache_group) list" and k and g :: cache_group and post p
  assume "(\<forall>x \<in> set pre. \<not> regex_test (cg_test (snd x)) p) \<and> regex_test (cg_test g) p"
  then show "assign (pre @ (k, g) # post) p = Some (cg_name g)"
    by (induction pre) auto
next
  fix env argv log cfg p
  assume a: "module_exports env argv = Inr (log, cfg)
             \<and> regex_test re_vendor p \<and> regex_test re_css p"
  then obtain d ne where "cfg = config_object d ne"
    using exports_config_object by blast
  with a show "assign (cacheGroups (splitChunks (optimization cfg))) p = Some ''vendors''"
    by (simp add: config_object_def)
qed

theorem first_matching_rule_wins_witness:
  "module_exports JUndefined
      (JObj [(''mode'', JStr ''production''), (''env'', JObj [(''NODE_ENV'', JStr ''production'')])])
     = Inr ([''webpack is in production mode''], config_object False (JStr ''production''))
   \<and> regex_test re_vendor ''/app/node_modules/leaflet/dist/leaflet.css''
   \<and> regex_test re_css ''/app/node_modules/leaflet/dist/leaflet.css''
   \<and> assign (cacheGroups (splitChunks (optimization (config_object False (JStr ''production'')))))
        ''/app/node_modules/leaflet/dist/leaflet.css'' = Some ''vendors''
   \<and> assign [(''styles'', \<lparr> cg_test = re_css, cg_name = ''styles'', cg_chunks = ''all'',
                             cg_enforce = Some True \<rparr>),
              (''vendor'', \<lparr> cg_test = re_vendor, cg_name = ''vendors'', cg_chunks = ''all'',
                             cg_enforce = None \<rparr>)]
        ''/app/node_modules/leaflet/dist/leaflet.css'' = Some ''styles''"
proof -
  let ?argv = "JObj [(''mode'', JStr ''production''), (''env'', JObj [(''NODE_ENV'', JStr ''production'')])]"
  let ?p = "''/app/node_modules/leaflet/dist/leaflet.css''"
  let ?styles = "\<lparr> cg_test = re_css, cg_name = ''styles'', cg_chunks = ''all'',
                    cg_enforce = Some True \<rparr>"
  let ?vendor = "\<lparr> cg_test = re_vendor, cg_name = ''vendors'', cg_chunks = ''all'',
                    cg_enforce = None \<rparr>"
  have r: "module_exports JUndefined ?argv
             = Inr ([''webpack is in production mode''], config_object False (JStr ''production''))"
    by (simp add: module_exports_def argv_env_NODE_ENV_def mode_message_def devMode_of_def)
  have v: "regex_test re_vendor ?p" by (simp add: re_vendor_def)
  have s: "regex_test re_css ?p" by (simp add: re_css_def)
  have e: "(\<forall>x \<in> set ([] :: (string \<times> cache_group) list). \<not> regex_test (cg_test (snd x)) ?p)
             \<and> regex_test (cg_test ?styles) ?p"
    using s by simp
  from first_matching_rule_wins r v s
  have a: "assign (cacheGroups (splitChunks (optimization (config_object False (JStr ''production''))))) ?p
             = Some ''vendors''"
    by blast
  from first_matching_rule_wins [THEN conjunct1, rule_format,
      where pre = "[]" and g = ?styles and p = ?p and k = "''styles''"
        and post = "[(''vendor'', ?vendor)]", OF e]
  have "assign [(''styles'', ?styles), (''vendor'', ?vendor)] ?p = Some ''styles''"
    by simp
  with r v s a show ?thesis by simp
qed

subsection \<open>Content hashes in file names\<close>




subsection \<open>What the configuration depends on\<close>

text \<open>
  Claim C8. Two calls that agree on \<^verbatim>\<open>argv.env.NODE_ENV\<close> return the same
  configuration, in every field, or fail alike; \<^verbatim>\<open>argv.mode\<close> and the first
  parameter only reach the console output.
\<close>

theorem config_depends_on_NODE_ENV_only:
  assumes "argv_env_NODE_ENV a1 = argv_env_NODE_ENV a2"
  shows "map_sum id snd (module_exports e1 a1) = map_sum id snd (module_exports e2 a2)"
proof (cases "argv_env_NODE_ENV a2")
  case (Inl e)
  with assms show ?thesis by (simp add: module_exports_def)
next
  case (Inr ne)
  then obtain m2 where m2: "get_prop a2 ''mode'' = Inr m2"
    using mode_read_defined by blast
  from Inr assms obtain m1 where m1: "get_prop a1 ''mode'' = Inr m1"
    using mode_read_defined by metis
  from Inr assms m1 m2 show ?thesis by (simp add: module_exports_def)
qed

theorem config_depends_on_NODE_ENV_only_witness:
  "argv_env_NODE_ENV (JObj [(''mode'', JStr ''development''), (''env'', JObj [(''NODE_ENV'', JStr ''production'')])])
     = argv_env_NODE_ENV (JObj [(''env'', JObj [(''NODE_ENV'', JStr ''production''), (''x'', JNum 1)]),
                                (''mode'', JStr ''production'')])
   \<and> map_sum id snd (module_exports JUndefined
        (JObj [(''mode'', JStr ''development''), (''env'', JObj [(''NODE_ENV'', JStr ''production'')])]))
     = map_sum id snd (module_exports (JStr ''e'')
        (JObj [(''env'', JObj [(''NODE_ENV'', JStr ''production''), (''x'', JNum 1)]),
               (''mode'', JStr ''production'')]))
   \<and> map_sum id snd (module_exports JUndefined
        (JObj [(''mode'', JStr ''development''), (''env'', JObj [(''NODE_ENV'', JStr ''production'')])]))
     = Inr (config_object False (JStr ''production''))"
proof -
  let ?a1 = "JObj [(''mode'', JStr ''development''), (''env'', JObj [(''NODE_ENV'', JStr ''production'')])]"
  let ?a2 = "JObj [(''env'', JObj [(''NODE_ENV'', JStr ''production''), (''x'', JNum 1)]),
                   (''mode'', JStr ''production'')]"
  have h: "argv_env_NODE_ENV ?a1 = argv_env_NODE_ENV ?a2"
    by (simp add: argv_env_NODE_ENV_def)
  have r: "map_sum id snd (module_exports JUndefined ?a1)
             = Inr (config_object False (JStr ''production''))"
    by (simp add: module_exports_def argv_env_NODE_ENV_def devMode_of_def)
  from config_depends_on_NODE_ENV_only [OF h, of JUndefined "JStr ''e''"] h r
  show ?thesis by simp
qed

subsection \<open>A missing argv.env\<close>

text \<open>
  Claim C9. When \<^verbatim>\<open>argv.env\<close> is undefined the function throws a TypeError, before it
  writes to the console or returns a configuration; whenever a configuration is
  returned, \<^verbatim>\<open>argv.env\<close> was defined.
\<close>

theorem undefined_argv_env_throws:
  "(get_prop argv ''env'' = Inr JUndefined \<longrightarrow> module_exports env argv = Inl TypeError)
   \<and> (\<forall>r. module_exports env argv = Inr r
         \<longrightarrow> (\<exists>v. get_prop argv ''env'' = Inr v \<and> v \<noteq> JUndefined))"
  by (auto simp: module_exports_def argv_env_NODE_ENV_def split: sum.splits)

theorem undefined_argv_env_throws_witness:
  "get_prop (JObj [(''mode'', JStr ''development'')]) ''env'' = Inr JUndefined
   \<and> module_exports JNull (JObj [(''mode'', JStr ''development'')]) = Inl TypeError"
proof -
  have h: "get_prop (JObj [(''mode'', JStr ''development'')]) ''env'' = Inr JUndefined"
    by simp
  from undefined_argv_env_throws [of "JObj [(''mode'', JStr ''development'')]" JNull] h
  show ?thesis by blast
qed

end
